theory Spec2Isabelle
  imports Complex_Main "HOL-Library.Signed_Division"
begin

section \<open>JSON-RPC 2.0 envelope of the retrieval service (package protocol)\<close>

text \<open>
  The request identifier is an \<^verbatim>\<open>interface{}\<close> that holds a string, a number or nothing.
\<close>

datatype json_id = IdNil | IdString string | IdNumber int

text \<open>
  \<^verbatim>\<open>type Error struct { Code int; Message string; Data interface{} }\<close>.
  The only data the servers ever attach is the \<^verbatim>\<open>retry_after\<close> map of the rate limiter,
  so \<open>Data\<close> is an optional association list.
\<close>

record Error =
  Code :: int
  Message :: string
  Data :: "(string \<times> int) list option"

record 'r Response =
  JSONRPC :: string
  ID :: json_id
  Result :: "'r option"
  Err :: "Error option"

definition JSONRPCVersion :: string where
  "JSONRPCVersion = ''2.0''"

text \<open>Standard JSON-RPC error codes.\<close>

definition ParseError :: int where "ParseError = - 32700"
definition InvalidRequest :: int where "InvalidRequest = - 32600"
definition MethodNotFound :: int where "MethodNotFound = - 32601"
definition InvalidParams :: int where "InvalidParams = - 32602"
definition InternalError :: int where "InternalError = - 32603"
definition ServerError :: int where "ServerError = - 32000"

text \<open>MCP-specific error codes.\<close>

definition AuthenticationRequired :: int where "AuthenticationRequired = - 32001"
definition AuthorizationFailed :: int where "AuthorizationFailed = - 32002"
definition RateLimitExceeded :: int where "RateLimitExceeded = - 32003"
definition ResourceNotFound :: int where "ResourceNotFound = - 32004"
definition ValidationError :: int where "ValidationError = - 32005"


definition NewErrorResponse ::
  "json_id \<Rightarrow> int \<Rightarrow> string \<Rightarrow> (string \<times> int) list option \<Rightarrow> 'r Response" where
  "NewErrorResponse rid code message dat =
     \<lparr>JSONRPC = JSONRPCVersion, ID = rid, Result = None,
      Err = Some \<lparr>Code = code, Message = message, Data = dat\<rparr>\<rparr>"

subsection \<open>What a handler writes to the HTTP response\<close>

text \<open>
  The status line, the content type and the encoded JSON-RPC body (kept as the
  response value itself; the plain-text bodies of \<^verbatim>\<open>http.Error\<close> are \<open>Inl\<close>).
\<close>

definition StatusOK :: nat where "StatusOK = 200"
definition StatusCreated :: nat where "StatusCreated = 201"
definition StatusBadRequest :: nat where "StatusBadRequest = 400"
definition StatusUnauthorized :: nat where "StatusUnauthorized = 401"
definition StatusPaymentRequired :: nat where "StatusPaymentRequired = 402"
definition StatusNotFound :: nat where "StatusNotFound = 404"
definition StatusMethodNotAllowed :: nat where "StatusMethodNotAllowed = 405"
definition StatusConflict :: nat where "StatusConflict = 409"
definition StatusTooManyRequests :: nat where "StatusTooManyRequests = 429"
definition StatusInternalServerError :: nat where "StatusInternalServerError = 500"

record 'b HTTPReply =
  Status :: nat
  ContentType :: string
  Body :: "string + 'b"

text \<open>
  \<^verbatim>\<open>MCPHandler.sendResponse\<close>: the switch on \<^verbatim>\<open>response.Error.Code\<close>, in the order of
  the source. The header is written once, before the body is encoded, so the status is
  the one chosen here.
\<close>

definition sendResponse_status :: "'r Response \<Rightarrow> nat" where
  "sendResponse_status response =
     (case Err response of
        Some e \<Rightarrow>
          (if Code e = AuthenticationRequired \<or> Code e = AuthorizationFailed
             then StatusUnauthorized
           else if Code e = RateLimitExceeded then StatusTooManyRequests
           else if Code e = ResourceNotFound then StatusNotFound
           else if Code e = ValidationError then StatusBadRequest
           else if Code e = ParseError \<or> Code e = InvalidRequest \<or> Code e = MethodNotFound
                   \<or> Code e = InvalidParams \<or> Code e = InternalError \<or> Code e = ServerError
             then StatusOK
           else StatusInternalServerError)
      | None \<Rightarrow> StatusOK)"

definition sendResponse :: "'r Response \<Rightarrow> ('r Response) HTTPReply" where
  "sendResponse response =
     \<lparr>Status = sendResponse_status response, ContentType = ''application/json'',
      Body = Inr response\<rparr>"


text \<open>
  The status table in the words of the specification: protocol codes give 200,
  authentication and authorization 401, rate limit 429, not found 404, validation 400,
  anything else 500.
\<close>

definition spec_http_status :: "int \<Rightarrow> nat" where
  "spec_http_status code =
     (if code \<in> {- 32700, - 32600, - 32601, - 32602, - 32603, - 32000} then 200
      else if code \<in> {- 32001, - 32002} then 401
      else if code = - 32003 then 429
      else if code = - 32004 then 404
      else if code = - 32005 then 400
      else 500)"

section \<open>Cost control of the task service (package cost)\<close>

text \<open>
  Amounts are \<^verbatim>\<open>float64\<close> in the source. The budget code only adds and compares them,
  so the amount type is left open: any type with an addition and an order, which covers
  IEEE doubles with their rounding \<open>+\<close> and their \<open>\<le>\<close>. Nothing below relies on a law
  of arithmetic.
\<close>

type_synonym Time = int

record 'a Budget =
  UserID :: string
  MonthlyLimitUSD :: 'a
  CurrentSpendUSD :: 'a
  ResetAt :: Time

definition CheckBudget :: "('a::{plus,ord}) Budget \<Rightarrow> 'a \<Rightarrow> bool" where
  "CheckBudget b costUSD \<longleftrightarrow> CurrentSpendUSD b + costUSD \<le> MonthlyLimitUSD b"

definition UpdateSpend :: "('a::plus) Budget \<Rightarrow> 'a \<Rightarrow> 'a Budget" where
  "UpdateSpend b costUSD = b\<lparr>CurrentSpendUSD := CurrentSpendUSD b + costUSD\<rparr>"

text \<open>
  \<^verbatim>\<open>BudgetManager\<close>: a mutex and the map of budgets. Every method locks the mutex on
  entry and releases it on return, so a method is one transition of the map.
\<close>

record 'a BudgetManager =
  budgets :: "string \<rightharpoonup> 'a Budget"

definition NewBudgetManager :: "'a BudgetManager" where
  "NewBudgetManager = \<lparr>budgets = Map.empty\<rparr>"

text \<open>\<open>resetAt\<close> is \<^verbatim>\<open>time.Now().AddDate(0, 1, 0)\<close>, read by the caller's clock.\<close>

definition SetBudget ::
  "('a::zero) BudgetManager \<Rightarrow> string \<Rightarrow> 'a \<Rightarrow> Time \<Rightarrow> 'a BudgetManager" where
  "SetBudget bm userID monthlyLimitUSD resetAt =
     bm\<lparr>budgets := (budgets bm)(userID \<mapsto>
        \<lparr>UserID = userID, MonthlyLimitUSD = monthlyLimitUSD, CurrentSpendUSD = 0,
         ResetAt = resetAt\<rparr>)\<rparr>"

text \<open>
  \<^verbatim>\<open>CheckAndUpdate\<close> returns \<^verbatim>\<open>(bool, error)\<close>; the error case is \<open>Inl\<close> with the
  message, the two regular cases are \<open>Inr True\<close> and \<open>Inr False\<close>.
\<close>

definition CheckAndUpdate ::
  "('a::{plus,ord}) BudgetManager \<Rightarrow> string \<Rightarrow> 'a \<Rightarrow> (string + bool) \<times> 'a BudgetManager" where
  "CheckAndUpdate bm userID costUSD =
     (case budgets bm userID of
        None \<Rightarrow> (Inl (''budget for user '' @ userID @ '' not found''), bm)
      | Some budget \<Rightarrow>
          if \<not> CheckBudget budget costUSD then (Inr False, bm)
          else (Inr True, bm\<lparr>budgets := (budgets bm)(userID \<mapsto> UpdateSpend budget costUSD)\<rparr>))"

section \<open>Tasks of the task service (package protocol of the a2a server)\<close>

datatype TaskState =
  TaskStatePending | TaskStateRunning | TaskStateCompleted | TaskStateFailed | TaskStateCancelled

definition IsTerminal :: "TaskState \<Rightarrow> bool" where
  "IsTerminal ts \<longleftrightarrow>
     ts = TaskStateCompleted \<or> ts = TaskStateFailed \<or> ts = TaskStateCancelled"

text \<open>
  Values of \<^verbatim>\<open>map[string]interface{}\<close> as JSON data; a \<^verbatim>\<open>nil\<close> map is \<open>None\<close>.
\<close>

datatype jvalue =
  JNull | JBool bool | JString string | JNumber rat | JArray "jvalue list"
  | JObject "(string \<times> jvalue) list"

type_synonym jmap = "(string \<times> jvalue) list"

text \<open>
  A \<^verbatim>\<open>time.Time\<close> is an instant counted from the zero value of the type, so the zero
  value is \<open>0\<close>.
\<close>

definition zeroTime :: Time where
  "zeroTime = 0"

record Task =
  Task_ID :: string
  AgentID :: string
  Capability :: string
  Input :: "jmap option"
  State :: TaskState
  Task_Result :: "jmap option"
  Task_Error :: string
  CreatedAt :: Time
  UpdatedAt :: Time
  CompletedAt :: Time

text \<open>
  \<^verbatim>\<open>NewTask\<close> draws a fresh UUID and reads the clock once; both are arguments here.
\<close>

definition NewTask :: "string \<Rightarrow> Time \<Rightarrow> string \<Rightarrow> string \<Rightarrow> jmap option \<Rightarrow> Task" where
  "NewTask uuid now agentID capability input =
     \<lparr>Task_ID = uuid, AgentID = agentID, Capability = capability, Input = input,
      State = TaskStatePending, Task_Result = None, Task_Error = [],
      CreatedAt = now, UpdatedAt = now, CompletedAt = zeroTime\<rparr>"

text \<open>The four mutators of a task; \<open>now\<close> is the one clock reading each of them takes.\<close>

definition UpdateState :: "TaskState \<Rightarrow> Time \<Rightarrow> Task \<Rightarrow> Task" where
  "UpdateState state now t = t\<lparr>State := state, UpdatedAt := now\<rparr>"

definition SetResult :: "jmap \<Rightarrow> Time \<Rightarrow> Task \<Rightarrow> Task" where
  "SetResult result now t =
     t\<lparr>Task_Result := Some result, State := TaskStateCompleted, CompletedAt := now,
       UpdatedAt := now\<rparr>"

definition SetError :: "string \<Rightarrow> Time \<Rightarrow> Task \<Rightarrow> Task" where
  "SetError err now t =
     t\<lparr>Task_Error := err, State := TaskStateFailed, CompletedAt := now, UpdatedAt := now\<rparr>"

definition Cancel :: "string \<Rightarrow> Time \<Rightarrow> Task \<Rightarrow> Task" where
  "Cancel reason now t =
     t\<lparr>Task_Error := reason, State := TaskStateCancelled, CompletedAt := now,
       UpdatedAt := now\<rparr>"

record TaskEvent =
  TaskID :: string
  Event_State :: TaskState
  Event_Message :: string
  Event_Data :: "jmap option"
  Timestamp :: Time

record AgentCard =
  Agent_ID :: string
  Agent_Name :: string
  Agent_Version :: string
  Agent_Description :: string
  Capabilities :: "(string \<times> string) list"

section \<open>The task service: task store, agent store, budget manager\<close>

text \<open>
  The stores keep pointers: \<^verbatim>\<open>MemoryStore.tasks\<close> is a \<^verbatim>\<open>map[string]*Task\<close>, and
  \<^verbatim>\<open>Get\<close> hands the stored pointer out. A caller that changes the task it got changes
  the stored record. The state therefore has a heap of task objects, addressed by
  numbers, and the store maps task ids to addresses. Subscriber channels are objects
  too: \<open>chans\<close> gives every channel its buffered events (capacity 10), and
  \<open>subscribers\<close> lists the channels of a task (a missing key is the empty list).
  \<open>brk\<close> and \<open>nextChan\<close> are the next unused address and channel.
\<close>

record 'a A2A =
  heap :: "nat \<Rightarrow> Task"
  brk :: nat
  chans :: "nat \<Rightarrow> TaskEvent list"
  nextChan :: nat
  tasks :: "string \<rightharpoonup> nat"
  subscribers :: "string \<Rightarrow> nat list"
  cards :: "string \<rightharpoonup> AgentCard"
  budgetManager :: "'a BudgetManager"

definition new :: "Task \<Rightarrow> 'a A2A \<Rightarrow> nat \<times> 'a A2A" where
  "new t s = (brk s, s\<lparr>heap := (heap s)(brk s := t), brk := Suc (brk s)\<rparr>)"

subsection \<open>\<^verbatim>\<open>MemoryStore\<close>\<close>

text \<open>The methods return a Go \<^verbatim>\<open>error\<close>: \<open>None\<close> is \<^verbatim>\<open>nil\<close>.\<close>

definition Create :: "'a A2A \<Rightarrow> nat \<Rightarrow> string option \<times> 'a A2A" where
  "Create s task =
     (if tasks s (Task_ID (heap s task)) \<noteq> None
      then (Some (''task '' @ Task_ID (heap s task) @ '' already exists''), s)
      else (None, s\<lparr>tasks := (tasks s)(Task_ID (heap s task) \<mapsto> task)\<rparr>))"

definition Get :: "'a A2A \<Rightarrow> string \<Rightarrow> string + nat" where
  "Get s ident =
     (case tasks s ident of
        None \<Rightarrow> Inl (''task '' @ ident @ '' not found'')
      | Some task \<Rightarrow> Inr task)"

definition Update :: "'a A2A \<Rightarrow> nat \<Rightarrow> string option \<times> 'a A2A" where
  "Update s task =
     (if tasks s (Task_ID (heap s task)) = None
      then (Some (''task '' @ Task_ID (heap s task) @ '' not found''), s)
      else (None, s\<lparr>tasks := (tasks s)(Task_ID (heap s task) \<mapsto> task)\<rparr>))"

definition Subscribe :: "'a A2A \<Rightarrow> string \<Rightarrow> nat \<times> 'a A2A" where
  "Subscribe s taskID =
     (nextChan s,
      s\<lparr>chans := (chans s)(nextChan s := []),
        subscribers := (subscribers s)(taskID := subscribers s taskID @ [nextChan s]),
        nextChan := Suc (nextChan s)\<rparr>)"

text \<open>
  The non-blocking send of \<^verbatim>\<open>PublishEvent\<close>: the event is appended to the buffer
  unless the buffer is full, in which case this subscriber misses it.
\<close>

definition trySend :: "TaskEvent \<Rightarrow> nat \<Rightarrow> (nat \<Rightarrow> TaskEvent list) \<Rightarrow> (nat \<Rightarrow> TaskEvent list)" where
  "trySend event ch cs = (if length (cs ch) < 10 then cs(ch := cs ch @ [event]) else cs)"

definition PublishEvent :: "'a A2A \<Rightarrow> TaskEvent \<Rightarrow> 'a A2A" where
  "PublishEvent s event =
     s\<lparr>chans := fold (trySend event) (subscribers s (TaskID event)) (chans s)\<rparr>"

subsection \<open>HTTP handlers of the task service\<close>

record CreateTaskRequest =
  Req_UserID :: string
  Req_AgentID :: string
  Req_Capability :: string
  Req_Input :: "jmap option"

text \<open>\<^verbatim>\<open>http.Error\<close>: a plain-text reply with the message and a line feed.\<close>

definition httpError :: "string \<Rightarrow> nat \<Rightarrow> 'b HTTPReply" where
  "httpError msg code =
     \<lparr>Status = code, ContentType = ''text/plain; charset=utf-8'', Body = Inl (msg @ [CHR 0x0A])\<rparr>"

definition jsonReply :: "nat \<Rightarrow> 'b \<Rightarrow> 'b HTTPReply" where
  "jsonReply code v = \<lparr>Status = code, ContentType = ''application/json'', Body = Inr v\<rparr>"

text \<open>
  \<^verbatim>\<open>handleCreateTask\<close>. \<open>body\<close> is the decoded request body (\<open>None\<close> when the JSON
  decoder fails), \<open>estimatedCost\<close> the \<^verbatim>\<open>float64\<close> constant \<^verbatim>\<open>0.01\<close> of the source,
  \<open>uuid\<close> and \<open>now\<close> what \<^verbatim>\<open>NewTask\<close> draws.
\<close>

definition handleCreateTask ::
  "('a::{plus,ord}) A2A \<Rightarrow> CreateTaskRequest option \<Rightarrow> 'a \<Rightarrow> string \<Rightarrow> Time
     \<Rightarrow> Task HTTPReply \<times> 'a A2A" where
  "handleCreateTask s body estimatedCost uuid now =
     (case body of
        None \<Rightarrow> (httpError ''Invalid request body'' StatusBadRequest, s)
      | Some req \<Rightarrow>
          (case cards s (Req_AgentID req) of
             None \<Rightarrow> (httpError ''Agent not found'' StatusNotFound, s)
           | Some agent \<Rightarrow>
               (case CheckAndUpdate (budgetManager s) (Req_UserID req) estimatedCost of
                  (Inl err, bm) \<Rightarrow>
                    (httpError ''Budget not configured'' StatusBadRequest, s\<lparr>budgetManager := bm\<rparr>)
                | (Inr allowed, bm) \<Rightarrow>
                    if \<not> allowed
                    then (httpError ''Budget exceeded'' StatusPaymentRequired,
                          s\<lparr>budgetManager := bm\<rparr>)
                    else
                      (let (task, s1) =
                             new (NewTask uuid now (Req_AgentID req) (Req_Capability req)
                                    (Req_Input req))
                               (s\<lparr>budgetManager := bm\<rparr>);
                           (err, s2) = Create s1 task
                       in case err of
                            Some e \<Rightarrow> (httpError e StatusInternalServerError, s2)
                          | None \<Rightarrow> (jsonReply StatusCreated (heap s2 task), s2)))))"

definition handleGetTask :: "'a A2A \<Rightarrow> string \<Rightarrow> Task HTTPReply" where
  "handleGetTask s taskID =
     (case Get s taskID of
        Inl err \<Rightarrow> httpError ''Task not found'' StatusNotFound
      | Inr task \<Rightarrow> jsonReply StatusOK (heap s task))"

text \<open>
  \<^verbatim>\<open>handleCancelTask\<close>: the task is cancelled in place, through the pointer the store
  returned, before \<^verbatim>\<open>Update\<close> is called. The event literal sets no timestamp.
\<close>

definition handleCancelTask :: "'a A2A \<Rightarrow> string \<Rightarrow> Time \<Rightarrow> Task HTTPReply \<times> 'a A2A" where
  "handleCancelTask s taskID now =
     (case Get s taskID of
        Inl err \<Rightarrow> (httpError ''Task not found'' StatusNotFound, s)
      | Inr task \<Rightarrow>
          if IsTerminal (State (heap s task))
          then (httpError ''Task already in terminal state'' StatusConflict, s)
          else
            (let s1 = s\<lparr>heap := (heap s)(task := Cancel ''Cancelled by user'' now (heap s task))\<rparr>;
                 (err, s2) = Update s1 task
             in case err of
                  Some e \<Rightarrow> (httpError e StatusInternalServerError, s2)
                | None \<Rightarrow>
                    (let s3 = PublishEvent s2
                                \<lparr>TaskID = taskID, Event_State = TaskStateCancelled,
                                 Event_Message = ''Task cancelled'', Event_Data = None,
                                 Timestamp = zeroTime\<rparr>
                     in (jsonReply StatusOK (heap s3 task), s3))))"

subsection \<open>The background processor\<close>

text \<open>
  \<^verbatim>\<open>processTask\<close> runs in its own goroutine and sleeps between the two transitions,
  so it is two transitions of the state: the part before the sleep and the part after.
  A run ends normally, returns early because \<^verbatim>\<open>Update\<close> failed, or panics on
  \<^verbatim>\<open>task.ID[0]\<close> and \<^verbatim>\<open>task.ID[:8]\<close> when the id is too short.
\<close>

datatype proc_result = Returned | UpdateFailed | Panicked

definition processTask_start :: "'a A2A \<Rightarrow> nat \<Rightarrow> Time \<Rightarrow> proc_result \<times> 'a A2A" where
  "processTask_start s task t_run =
     (let s1 = s\<lparr>heap := (heap s)(task := UpdateState TaskStateRunning t_run (heap s task))\<rparr>;
          (err, s2) = Update s1 task
      in if err \<noteq> None then (UpdateFailed, s2)
         else
           (let s3 = PublishEvent s2
                       \<lparr>TaskID = Task_ID (heap s2 task), Event_State = TaskStateRunning,
                        Event_Message = ''Task started'', Event_Data = None,
                        Timestamp = zeroTime\<rparr>
            in if length (Task_ID (heap s3 task)) < 8 then (Panicked, s3) else (Returned, s3)))"

text \<open>
  After the sleep. \<open>stamp\<close> is the RFC 3339 text of the clock that goes into the result,
  \<open>t_done\<close> the clock read by \<^verbatim>\<open>SetResult\<close> or \<^verbatim>\<open>SetError\<close>.
\<close>

definition successResult :: "Task \<Rightarrow> string \<Rightarrow> jmap" where
  "successResult t stamp =
     [(''status'', JString ''success''), (''capability'', JString (Capability t)),
      (''message'', JString ''Task completed successfully''), (''timestamp'', JString stamp),
      (''cost'', JNumber (1 / 100))]"

definition processTask_finish :: "'a A2A \<Rightarrow> nat \<Rightarrow> string \<Rightarrow> Time \<Rightarrow> proc_result \<times> 'a A2A" where
  "processTask_finish s task stamp t_done =
     (case Task_ID (heap s task) of
        [] \<Rightarrow> (Panicked, s)
      | c # cs \<Rightarrow>
          (let success = ((of_char c :: nat) mod 10 \<noteq> 0);
               s1 = (if success
                     then s\<lparr>heap := (heap s)(task :=
                            SetResult (successResult (heap s task) stamp) t_done (heap s task))\<rparr>
                     else s\<lparr>heap := (heap s)(task :=
                            SetError ''Simulated task failure'' t_done (heap s task))\<rparr>);
               (err, s2) = Update s1 task
           in if err \<noteq> None then (UpdateFailed, s2)
              else
                (let s3 = PublishEvent s2
                            (if success
                             then \<lparr>TaskID = Task_ID (heap s2 task),
                                   Event_State = TaskStateCompleted,
                                   Event_Message = ''Task completed successfully'',
                                   Event_Data = None, Timestamp = zeroTime\<rparr>
                             else \<lparr>TaskID = Task_ID (heap s2 task),
                                   Event_State = TaskStateFailed,
                                   Event_Message = ''Task failed'',
                                   Event_Data = None, Timestamp = zeroTime\<rparr>)
                 in if length (Task_ID (heap s3 task)) < 8 then (Panicked, s3)
                    else (Returned, s3))))"

definition processTask ::
  "'a A2A \<Rightarrow> nat \<Rightarrow> Time \<Rightarrow> string \<Rightarrow> Time \<Rightarrow> proc_result \<times> 'a A2A" where
  "processTask s task t_run stamp t_done =
     (case processTask_start s task t_run of
        (Returned, s1) \<Rightarrow> processTask_finish s1 task stamp t_done
      | (r, s1) \<Rightarrow> (r, s1))"

text \<open>
  How a state change reaches the store, in \<^verbatim>\<open>processTask\<close> and in the store's own
  test: the task that came out of the store is changed in place, then handed to
  \<^verbatim>\<open>Update\<close>.
\<close>

definition submitState :: "'a A2A \<Rightarrow> nat \<Rightarrow> TaskState \<Rightarrow> Time \<Rightarrow> string option \<times> 'a A2A" where
  "submitState s task state now =
     Update (s\<lparr>heap := (heap s)(task := UpdateState state now (heap s task))\<rparr>) task"

subsection \<open>A small run of the task service\<close>

text \<open>
  An empty server (unused heap cells hold an unused record), with one agent card and
  one budget, as the handler tests set it up.
\<close>

definition nilTask :: Task where
  "nilTask = NewTask [] zeroTime [] [] None"

definition NewA2A :: "'a A2A" where
  "NewA2A = \<lparr>heap = (\<lambda>a. nilTask), brk = 0, chans = (\<lambda>c. []), nextChan = 0,
            tasks = Map.empty, subscribers = (\<lambda>k. []), cards = Map.empty,
            budgetManager = NewBudgetManager\<rparr>"

definition demo_card :: AgentCard where
  "demo_card = \<lparr>Agent_ID = ''test-agent'', Agent_Name = ''Test'', Agent_Version = ''1.0.0'',
     Agent_Description = ''Test'', Capabilities = [(''search'', [])]\<rparr>"

definition demo_req :: CreateTaskRequest where
  "demo_req = \<lparr>Req_UserID = ''user-1'', Req_AgentID = ''test-agent'',
     Req_Capability = ''search'', Req_Input = Some [(''query'', JString ''test'')]\<rparr>"

definition demo_uuid :: string where
  "demo_uuid = ''1f0c9a52-7d3e-4b61-9c2a-5e8f00000001''"

definition demo_server :: "rat \<Rightarrow> rat A2A" where
  "demo_server limit = NewA2A\<lparr>cards := [''test-agent'' \<mapsto> demo_card],
      budgetManager := SetBudget NewBudgetManager ''user-1'' limit 2592000\<rparr>"

text \<open>One task created at time 100 under a budget of 10, then one subscriber.\<close>

definition demo_created :: "rat A2A" where
  "demo_created =
     snd (Subscribe
            (snd (handleCreateTask (demo_server 10) (Some demo_req) (1 / 100) demo_uuid 100))
            demo_uuid)"

text \<open>The processor starts the task at 150 and finishes it at 200.\<close>

definition demo_done :: "rat A2A" where
  "demo_done = snd (processTask demo_created 0 150 ''2025-11-29T10:00:00Z'' 200)"

section \<open>Authentication of the retrieval service (package auth)\<close>

record Claims =
  TenantID :: string
  Claims_UserID :: string
  Email :: string
  Scopes :: "string list"
  Issuer :: string
  Audience :: "string list"
  ExpiresAt :: "Time option"

text \<open>
  The JWT library is not part of the repository. What it does with a token string is
  taken as three parameters: the decoding of the compact form into a signing method
  and claims, the signature check under a key, and the library's own validation of the
  registered claims at the current time. \<open>ParseWithClaims\<close> puts them in the order of
  the library: decode, ask the caller's key function for the key, verify, validate.
\<close>

datatype SigningMethod =
  SigningMethodRSA | SigningMethodHMAC | SigningMethodECDSA | SigningMethodNone

record Token =
  Token_Method :: SigningMethod
  Token_Claims :: Claims
  Valid :: bool

record 'k JWTLib =
  decodeToken :: "string \<Rightarrow> (SigningMethod \<times> Claims) option"
  verifies :: "'k \<Rightarrow> string \<Rightarrow> bool"
  registeredClaimsValid :: "Claims \<Rightarrow> Time \<Rightarrow> bool"

definition ParseWithClaims ::
  "'k JWTLib \<Rightarrow> string \<Rightarrow> (SigningMethod \<Rightarrow> string + 'k) \<Rightarrow> Time \<Rightarrow> string + Token" where
  "ParseWithClaims lib tokenString keyFunc now =
     (case decodeToken lib tokenString of
        None \<Rightarrow> Inl ''token is malformed''
      | Some (method, claims) \<Rightarrow>
          (case keyFunc method of
             Inl err \<Rightarrow> Inl (''token is unverifiable: '' @ err)
           | Inr key \<Rightarrow>
               if \<not> verifies lib key tokenString then Inl ''token signature is invalid''
               else if \<not> registeredClaimsValid lib claims now
                 then Inl ''token has invalid claims''
               else Inr \<lparr>Token_Method = method, Token_Claims = claims, Valid = True\<rparr>))"

record 'k JWTValidator =
  publicKey :: 'k
  issuer :: string
  audience :: string

definition TrimPrefix :: "string \<Rightarrow> string \<Rightarrow> string" where
  "TrimPrefix s prefix = (if take (length prefix) s = prefix then drop (length prefix) s else s)"

text \<open>
  \<^verbatim>\<open>ValidateToken\<close>. The last check is the only one on the tenant id: it must not be
  empty.
\<close>

definition ValidateToken ::
  "'k JWTValidator \<Rightarrow> 'k JWTLib \<Rightarrow> string \<Rightarrow> Time \<Rightarrow> string + Claims" where
  "ValidateToken v lib tokenString now =
     (case ParseWithClaims lib (TrimPrefix tokenString ''Bearer '')
             (\<lambda>method. if method \<noteq> SigningMethodRSA then Inl ''unexpected signing method''
                       else Inr (publicKey v)) now of
        Inl err \<Rightarrow> Inl (''failed to parse token: '' @ err)
      | Inr token \<Rightarrow>
          if \<not> Valid token then Inl ''invalid token claims''
          else if Issuer (Token_Claims token) \<noteq> issuer v
            then Inl (''invalid issuer: expected '' @ issuer v @ '', got ''
                      @ Issuer (Token_Claims token))
          else if audience v \<notin> set (Audience (Token_Claims token)) then Inl ''invalid audience''
          else if (case ExpiresAt (Token_Claims token) of Some e \<Rightarrow> e < now | None \<Rightarrow> False)
            then Inl ''token expired''
          else if TenantID (Token_Claims token) = [] then Inl ''tenant_id claim is required''
          else Inr (Token_Claims token))"

text \<open>The request context: the three values \<^verbatim>\<open>WithAuth\<close> stores under its keys.\<close>

record Ctx =
  ContextKeyTenantID :: "string option"
  ContextKeyUserID :: "string option"
  ContextKeyScopes :: "string list option"

definition Background :: Ctx where
  "Background = \<lparr>ContextKeyTenantID = None, ContextKeyUserID = None, ContextKeyScopes = None\<rparr>"

definition WithAuth :: "Ctx \<Rightarrow> Claims \<Rightarrow> Ctx" where
  "WithAuth ctx claims =
     ctx\<lparr>ContextKeyTenantID := Some (TenantID claims),
         ContextKeyUserID := Some (Claims_UserID claims),
         ContextKeyScopes := Some (Scopes claims)\<rparr>"

definition ExtractTenantID :: "Ctx \<Rightarrow> string + string" where
  "ExtractTenantID ctx =
     (case ContextKeyTenantID ctx of
        None \<Rightarrow> Inl ''tenant_id not found in context''
      | Some tenantID \<Rightarrow>
          if tenantID = [] then Inl ''tenant_id not found in context'' else Inr tenantID)"

section \<open>Storage of the retrieval service (package database)\<close>

record Document =
  Doc_ID :: string
  Doc_TenantID :: string
  Title :: string
  Content :: string
  Metadata :: "jmap option"
  Embedding :: "rat list option"
  Doc_CreatedAt :: Time
  Doc_UpdatedAt :: Time
  CreatedBy :: "string option"

text \<open>
  The database server, as far as the storage code depends on it: the rows of the table
  \<^verbatim>\<open>documents\<close>, whether the pool can open a transaction, what the server makes of a
  \<^verbatim>\<open>SET LOCAL\<close> statement (an error, or the value the setting then has), and the
  server's cast from text to \<^verbatim>\<open>uuid\<close> (\<open>None\<close> when the text is no UUID). The columns
  \<^verbatim>\<open>id\<close> and \<^verbatim>\<open>tenant_id\<close> have type \<^verbatim>\<open>uuid\<close>, so rows hold values of that cast.
\<close>

record PG =
  documents :: "Document list"
  pool_ok :: bool
  set_local :: "string \<Rightarrow> string + string"
  to_uuid :: "string \<Rightarrow> string option"

text \<open>
  A transaction: the statements it has executed and the value of
  \<^verbatim>\<open>app.current_tenant_id\<close> inside it.
\<close>

record Tx =
  executed :: "string list"
  current_tenant_id :: "string option"

text \<open>\<^verbatim>\<open>fmt.Sprintf("SET LOCAL app.current_tenant_id = '%s'", tenantID)\<close>\<close>

definition SetTenantContext :: "PG \<Rightarrow> Tx \<Rightarrow> string \<Rightarrow> string + Tx" where
  "SetTenantContext db tx tenantID =
     (let query = ''SET LOCAL app.current_tenant_id = '' @ [CHR 0x27] @ tenantID @ [CHR 0x27]
      in case set_local db query of
           Inl err \<Rightarrow> Inl (''failed to set tenant context: '' @ err)
         | Inr v \<Rightarrow> Inr (tx\<lparr>executed := executed tx @ [query], current_tenant_id := Some v\<rparr>))"

definition BeginTx :: "PG \<Rightarrow> string \<Rightarrow> string + Tx" where
  "BeginTx db tenantID =
     (if \<not> pool_ok db then Inl ''failed to begin transaction''
      else SetTenantContext db \<lparr>executed = [], current_tenant_id = None\<rparr> tenantID)"

text \<open>
  The row-level security policy of \<^verbatim>\<open>scripts/init-db.sql\<close>:
  \<^verbatim>\<open>USING (tenant_id = current_setting('app.current_tenant_id', true)::uuid)\<close>.
  An unset setting is \<^verbatim>\<open>NULL\<close> and shows no row; a setting that is no UUID makes the
  cast, and with it the query, fail.
\<close>

definition visible :: "PG \<Rightarrow> Tx \<Rightarrow> string + Document list" where
  "visible db tx =
     (case current_tenant_id tx of
        None \<Rightarrow> Inr []
      | Some v \<Rightarrow>
          (case to_uuid db v of
             None \<Rightarrow> Inl ''invalid input syntax for type uuid''
           | Some t \<Rightarrow> Inr (filter (\<lambda>d. Doc_TenantID d = t) (documents db))))"


section \<open>Hybrid search (package database)\<close>

text \<open>
  Both searches are one SQL statement each. The statement is modelled clause by clause
  over the rows the tenant may see. The server's text search and vector functions are
  parameters: \<open>ts_match\<close> is \<^verbatim>\<open>to_tsvector(...) @@ plainto_tsquery(...)\<close>,
  \<open>ts_rank_cd\<close> the rank function, \<open>cosine_distance\<close> the operator \<^verbatim>\<open><=>\<close>. Scores
  are exact rationals; \<open>None\<close> is SQL's \<^verbatim>\<open>NULL\<close>. Where SQL leaves the order of equal
  keys open, the rows keep the order they had.
\<close>

record TextSearch =
  ts_match :: "Document \<Rightarrow> string \<Rightarrow> bool"
  ts_rank_cd :: "Document \<Rightarrow> string \<Rightarrow> rat"
  cosine_distance :: "rat list \<Rightarrow> rat list \<Rightarrow> rat"

record HybridSearchParams =
  Query :: string
  Query_Embedding :: "rat list option"
  Limit :: int
  BM25Weight :: rat
  VectorWeight :: rat
  MinBM25Score :: rat
  MinVectorSim :: rat

record HybridSearchResult =
  Result_Document :: Document
  BM25Score :: rat
  VectorScore :: rat
  CombinedScore :: rat

text \<open>
  The Go code before the query: weights that sum to zero become a half each, then both
  are divided by their sum; a limit that is not positive becomes 10.
\<close>

definition normWeights :: "HybridSearchParams \<Rightarrow> rat \<times> rat" where
  "normWeights p =
     (let totalWeight = BM25Weight p + VectorWeight p
      in if totalWeight = 0 then ((1 / 2) / 1, (1 / 2) / 1)
         else (BM25Weight p / totalWeight, VectorWeight p / totalWeight))"

definition normLimit :: "HybridSearchParams \<Rightarrow> int" where
  "normLimit p = (if Limit p \<le> 0 then 10 else Limit p)"

text \<open>\<^verbatim>\<open>ORDER BY key DESC\<close>, and \<^verbatim>\<open>ROW_NUMBER()\<close> over an ordered list.\<close>

definition order_desc :: "('a \<Rightarrow> rat) \<Rightarrow> 'a list \<Rightarrow> 'a list" where
  "order_desc key xs = sort_key (\<lambda>x. - key x) xs"


subsection \<open>Reciprocal rank fusion: \<^verbatim>\<open>HybridSearch\<close>\<close>







subsection \<open>Weighted score fusion: \<^verbatim>\<open>SimpleHybridSearch\<close>\<close>

text \<open>
  One \<^verbatim>\<open>SELECT\<close> without sub-queries. A row as the statement computes it: the lexical
  score, the vector score and the combined score; the last two are \<^verbatim>\<open>NULL\<close> for a row
  with an embedding when there is no query vector.
\<close>

definition simpleRow ::
  "TextSearch \<Rightarrow> string \<Rightarrow> rat list option \<Rightarrow> rat \<Rightarrow> rat \<Rightarrow> Document
     \<Rightarrow> Document \<times> rat \<times> rat option \<times> rat option" where
  "simpleRow ts q qe bm25Weight vectorWeight d =
     (d, ts_rank_cd ts d q,
      (case Embedding d of
         None \<Rightarrow> Some 0
       | Some emb \<Rightarrow> map_option (\<lambda>e. 1 - cosine_distance ts emb e) qe),
      (case Embedding d of
         None \<Rightarrow> Some (ts_rank_cd ts d q * bm25Weight + 0)
       | Some emb \<Rightarrow>
           map_option (\<lambda>e. ts_rank_cd ts d q * bm25Weight
                            + (1 - cosine_distance ts emb e) * vectorWeight) qe))"

text \<open>
  \<^verbatim>\<open>WHERE ... @@ ... OR (embedding IS NOT NULL AND (1 - (embedding <=> $2)) >= $6)\<close>
\<close>

definition simpleWhere :: "TextSearch \<Rightarrow> string \<Rightarrow> rat list option \<Rightarrow> rat \<Rightarrow> Document \<Rightarrow> bool" where
  "simpleWhere ts q qe minVector d \<longleftrightarrow>
     ts_match ts d q
     \<or> (case Embedding d of
          None \<Rightarrow> False
        | Some emb \<Rightarrow>
            (case qe of None \<Rightarrow> False | Some e \<Rightarrow> 1 - cosine_distance ts emb e \<ge> minVector))"

text \<open>
  \<^verbatim>\<open>ORDER BY combined_score DESC LIMIT $5\<close>: descending order puts \<^verbatim>\<open>NULL\<close> first.
\<close>

definition simpleQuery ::
  "TextSearch \<Rightarrow> Document list \<Rightarrow> HybridSearchParams
     \<Rightarrow> (Document \<times> rat \<times> rat option \<times> rat option) list" where
  "simpleQuery ts rows p =
     (let selected =
            map (simpleRow ts (Query p) (Query_Embedding p) (fst (normWeights p))
                   (snd (normWeights p)))
              (filter (simpleWhere ts (Query p) (Query_Embedding p) (MinVectorSim p)) rows)
      in take (nat (normLimit p))
           (filter (\<lambda>(d, b, v, c). c = None) selected
            @ List.map_filter (\<lambda>(d, b, v, c). map_option (\<lambda>c'. (d, b, v, Some c')) c)
                (order_desc (\<lambda>(d, b, v, c). case c of None \<Rightarrow> 0 | Some c' \<Rightarrow> c')
                   (filter (\<lambda>(d, b, v, c). c \<noteq> None) selected))))"

text \<open>\<^verbatim>\<open>rows.Scan\<close> into \<^verbatim>\<open>float64\<close> variables fails on \<^verbatim>\<open>NULL\<close>.\<close>

fun scanRows ::
  "(Document \<times> rat \<times> rat option \<times> rat option) list \<Rightarrow> string + HybridSearchResult list" where
  "scanRows [] = Inr []"
| "scanRows ((d, b, Some v, Some c) # rest) =
     (case scanRows rest of
        Inl err \<Rightarrow> Inl err
      | Inr results \<Rightarrow>
          Inr (\<lparr>Result_Document = d, BM25Score = b, VectorScore = v, CombinedScore = c\<rparr>
               # results))"
| "scanRows ((d, b, v, c) # rest) = Inl ''failed to scan result: cannot scan NULL into *float64''"

definition SimpleHybridSearch ::
  "PG \<Rightarrow> TextSearch \<Rightarrow> string \<Rightarrow> HybridSearchParams \<Rightarrow> string + HybridSearchResult list" where
  "SimpleHybridSearch db ts tenantID p =
     (case BeginTx db tenantID of
        Inl err \<Rightarrow> Inl err
      | Inr tx \<Rightarrow>
          (case visible db tx of
             Inl err \<Rightarrow> Inl (''failed to perform simple hybrid search: '' @ err)
           | Inr rows \<Rightarrow> scanRows (simpleQuery ts rows p)))"

section \<open>Tools of the retrieval service (package tools)\<close>



















section \<open>The JSON-RPC handler of the retrieval service (package server)\<close>










section \<open>Middleware of the retrieval service (package middleware)\<close>

subsection \<open>The counter store\<close>




subsection \<open>The rate limiter\<close>




text \<open>The window is \<^verbatim>\<open>time.Minute\<close>, kept in seconds.\<close>

record RateLimiter =
  defaultLimit :: int
  window :: int





definition RateLimiter_sendError ::
  "RateLimiter \<Rightarrow> json_id \<Rightarrow> int \<Rightarrow> string \<Rightarrow> ('r Response) HTTPReply" where
  "RateLimiter_sendError rl rid code message =
     \<lparr>Status = StatusTooManyRequests, ContentType = ''application/json'',
      Body = Inr (NewErrorResponse rid code message (Some [(''retry_after'', window rl)]))\<rparr>"




subsection \<open>The authentication middleware\<close>



definition AuthMiddleware_sendError :: "json_id \<Rightarrow> int \<Rightarrow> string \<Rightarrow> ('r Response) HTTPReply" where
  "AuthMiddleware_sendError rid code message =
     \<lparr>Status = StatusUnauthorized, ContentType = ''application/json'',
      Body = Inr (NewErrorResponse rid code message None)\<rparr>"



subsection \<open>A small setup of the retrieval service\<close>

text \<open>
  A validator with key 1 and a token library that knows three token strings: one for
  the demo tenant of \<^verbatim>\<open>scripts/init-db.sql\<close>, one whose tenant id contains a single
  quote, and one signed with a symmetric algorithm.
\<close>

definition acme :: string where
  "acme = ''11111111-1111-1111-1111-111111111111''"

definition quoted_tenant :: string where
  "quoted_tenant = ''x'' @ [CHR 0x27] @ ''; DROP TABLE documents; --''"

definition demo_claims :: "string \<Rightarrow> Claims" where
  "demo_claims tenant =
     \<lparr>TenantID = tenant, Claims_UserID = ''user-1'', Email = [], Scopes = [''read''],
      Issuer = ''mcp-server-demo'', Audience = [''mcp-server''], ExpiresAt = Some 2000\<rparr>"

definition demo_lib :: "nat JWTLib" where
  "demo_lib =
     \<lparr>decodeToken = (\<lambda>s.
        if s = ''token-acme'' then Some (SigningMethodRSA, demo_claims acme)
        else if s = ''token-quote'' then Some (SigningMethodRSA, demo_claims quoted_tenant)
        else if s = ''token-hmac'' then Some (SigningMethodHMAC, demo_claims acme)
        else None),
      verifies = (\<lambda>k s. k = 1),
      registeredClaimsValid =
        (\<lambda>c now. case ExpiresAt c of Some e \<Rightarrow> now \<le> e | None \<Rightarrow> True)\<rparr>"

definition demo_validator :: "nat JWTValidator" where
  "demo_validator = \<lparr>publicKey = 1, issuer = ''mcp-server-demo'', audience = ''mcp-server''\<rparr>"

text \<open>A database that takes every statement and answers with the statement itself.\<close>

definition echo_pg :: PG where
  "echo_pg = \<lparr>documents = [], pool_ok = True, set_local = Inr, to_uuid = Some\<rparr>"















subsection \<open>A small corpus for the hybrid search\<close>











section \<open>Theorems\<close>

subsection \<open>Status of a JSON-RPC error\<close>

lemmas error_code_defs =
  ParseError_def InvalidRequest_def MethodNotFound_def InvalidParams_def InternalError_def
  ServerError_def AuthenticationRequired_def AuthorizationFailed_def RateLimitExceeded_def
  ResourceNotFound_def ValidationError_def

lemmas http_status_defs =
  StatusOK_def StatusCreated_def StatusBadRequest_def StatusUnauthorized_def
  StatusPaymentRequired_def StatusNotFound_def StatusMethodNotAllowed_def StatusConflict_def
  StatusTooManyRequests_def StatusInternalServerError_def

text \<open>
  C2: for every JSON-RPC response that carries an error, the HTTP status written by
  \<open>sendResponse\<close> is a function of the error code alone: 200 for -32700, -32600,
  -32601, -32602, -32603 and -32000, 401 for -32001 and -32002, 429 for -32003, 404 for
  -32004, 400 for -32005, and 500 for every other code.
\<close>

theorem sendResponse_status_by_code:
  "Status (sendResponse (response\<lparr>Err := Some e\<rparr>)) = spec_http_status (Code e)"
  by (simp add: sendResponse_def sendResponse_status_def spec_http_status_def
      error_code_defs http_status_defs)

text \<open>
  C4: for a user with a configured budget, \<open>CheckAndUpdate\<close> answers allowed and
  replaces the current spend by current spend plus cost exactly when
  \<open>current_spend + cost \<le> monthly_limit\<close>; otherwise it answers denied and the manager
  is unchanged. Nothing else in the manager changes in either case. The whole check and
  update is one transition of the manager (the body runs under the manager's mutex).
\<close>

theorem CheckAndUpdate_admits_iff_within_limit:
  assumes "budgets bm user = Some b"
  shows "CheckAndUpdate bm user cost =
           (if CurrentSpendUSD b + cost \<le> MonthlyLimitUSD b
            then (Inr True,
                  bm\<lparr>budgets := (budgets bm)(user \<mapsto>
                     b\<lparr>CurrentSpendUSD := CurrentSpendUSD b + cost\<rparr>)\<rparr>)
            else (Inr False, bm))"
  using assms by (simp add: CheckAndUpdate_def CheckBudget_def UpdateSpend_def)

text \<open>
  A budget of 10 with 9.99 spent admits a cost of 0.01, which lands exactly on the limit.
\<close>

theorem CheckAndUpdate_admits_iff_within_limit_witness:
  "CheckAndUpdate
     \<lparr>budgets = [''user-1'' \<mapsto> \<lparr>UserID = ''user-1'', MonthlyLimitUSD = (10::rat),
                 CurrentSpendUSD = 999 / 100, ResetAt = 0\<rparr>]\<rparr> ''user-1'' (1 / 100)
   = (Inr True,
      \<lparr>budgets = [''user-1'' \<mapsto> \<lparr>UserID = ''user-1'', MonthlyLimitUSD = (10::rat),
                 CurrentSpendUSD = 10, ResetAt = 0\<rparr>]\<rparr>)"
  using CheckAndUpdate_admits_iff_within_limit
    [of "\<lparr>budgets = [''user-1'' \<mapsto> \<lparr>UserID = ''user-1'', MonthlyLimitUSD = (10::rat),
                 CurrentSpendUSD = 999 / 100, ResetAt = 0\<rparr>]\<rparr>" "''user-1''"
        "\<lparr>UserID = ''user-1'', MonthlyLimitUSD = (10::rat),
                 CurrentSpendUSD = 999 / 100, ResetAt = 0\<rparr>" "1 / 100"]
  by simp

text \<open>
  The mutex serialises the calls, so a run of the manager is a sequence of whole calls.
  Each call keeps every budget within its limit: an admitted cost was checked against
  the limit in the same call, a denied one changes nothing.
\<close>

lemma CheckAndUpdate_keeps_within_limit:
  assumes "\<forall>u b. budgets bm u = Some b \<longrightarrow> CurrentSpendUSD b \<le> MonthlyLimitUSD b"
  shows "\<forall>u b. budgets (snd (CheckAndUpdate bm user cost)) u = Some b
                 \<longrightarrow> CurrentSpendUSD b \<le> MonthlyLimitUSD b"
  using assms
  by (auto simp: CheckAndUpdate_def CheckBudget_def UpdateSpend_def
      split: option.splits if_splits)

subsection \<open>Task service\<close>


lemmas demo_defs =
  nilTask_def NewA2A_def demo_card_def demo_req_def demo_uuid_def demo_server_def
  demo_created_def NewTask_def zeroTime_def NewBudgetManager_def SetBudget_def

lemmas create_defs =
  handleCreateTask_def CheckAndUpdate_def CheckBudget_def UpdateSpend_def new_def Create_def
  Subscribe_def Let_def jsonReply_def

lemma demo_created_tasks: "tasks demo_created demo_uuid = Some 0"
  by (simp add: demo_defs create_defs)

lemma demo_created_heap:
  "heap demo_created 0 =
     NewTask demo_uuid 100 ''test-agent'' ''search'' (Some [(''query'', JString ''test'')])"
  by (simp add: demo_defs create_defs)

lemma demo_created_subscribers:
  "subscribers demo_created demo_uuid = [0] \<and> chans demo_created 0 = []"
  by (simp add: demo_defs create_defs)

lemmas demo_created_simps =
  demo_created_tasks [unfolded demo_uuid_def] demo_created_heap [unfolded demo_uuid_def]
  demo_created_subscribers [unfolded demo_uuid_def]

lemmas process_defs =
  processTask_def processTask_start_def processTask_finish_def Update_def PublishEvent_def
  trySend_def UpdateState_def SetResult_def SetError_def Let_def NewTask_def zeroTime_def
  demo_uuid_def successResult_def

lemma demo_done_heap:
  "heap demo_done 0 =
     \<lparr>Task_ID = demo_uuid, AgentID = ''test-agent'', Capability = ''search'',
      Input = Some [(''query'', JString ''test'')], State = TaskStateCompleted,
      Task_Result = Some [(''status'', JString ''success''), (''capability'', JString ''search''),
        (''message'', JString ''Task completed successfully''),
        (''timestamp'', JString ''2025-11-29T10:00:00Z''), (''cost'', JNumber (1 / 100))],
      Task_Error = [], CreatedAt = 100, UpdatedAt = 200, CompletedAt = 200\<rparr>"
  by (simp add: demo_done_def process_defs demo_created_simps)

lemma demo_done_tasks: "tasks demo_done demo_uuid = Some 0"
  by (simp add: demo_done_def process_defs demo_created_simps)

text \<open>
  C5: when the budget check of a POST /tasks request answers denied, the reply is 402,
  the whole server state (task store, heap, budgets) is what it was before the request,
  and a GET for the id the task would have received answers 404.
\<close>

theorem handleCreateTask_denied_creates_nothing:
  assumes "fst (CheckAndUpdate (budgetManager s) (Req_UserID req) cost) = Inr False"
      and "cards s (Req_AgentID req) = Some agent"
      and "tasks s uuid = None"
  shows "Status (fst (handleCreateTask s (Some req) cost uuid now)) = 402
       \<and> snd (handleCreateTask s (Some req) cost uuid now) = s
       \<and> Status (handleGetTask (snd (handleCreateTask s (Some req) cost uuid now)) uuid) = 404"
proof -
  from assms(1)
  have bm: "CheckAndUpdate (budgetManager s) (Req_UserID req) cost = (Inr False, budgetManager s)"
    by (auto simp: CheckAndUpdate_def split: option.splits if_splits)
  have r: "handleCreateTask s (Some req) cost uuid now
             = (httpError ''Budget exceeded'' StatusPaymentRequired, s)"
    using assms(2) bm by (simp add: handleCreateTask_def)
  show ?thesis
    using assms(3) by (simp add: r httpError_def handleGetTask_def Get_def http_status_defs)
qed

text \<open>
  The handler test for an exceeded budget: a limit of 0.001 against the estimate 0.01.
\<close>

theorem handleCreateTask_denied_creates_nothing_witness:
  "fst (CheckAndUpdate (budgetManager (demo_server (1 / 1000))) (Req_UserID demo_req) (1 / 100))
     = Inr False
   \<and> Status (fst (handleCreateTask (demo_server (1 / 1000)) (Some demo_req) (1 / 100)
                    demo_uuid 100)) = 402
   \<and> snd (handleCreateTask (demo_server (1 / 1000)) (Some demo_req) (1 / 100) demo_uuid 100)
     = demo_server (1 / 1000)
   \<and> Status (handleGetTask
               (snd (handleCreateTask (demo_server (1 / 1000)) (Some demo_req) (1 / 100)
                       demo_uuid 100)) demo_uuid) = 404"
proof -
  have h1: "fst (CheckAndUpdate (budgetManager (demo_server (1 / 1000))) (Req_UserID demo_req)
              (1 / 100)) = Inr False"
    by (simp add: demo_defs CheckAndUpdate_def CheckBudget_def)
  have h2: "cards (demo_server (1 / 1000)) (Req_AgentID demo_req) = Some demo_card"
    by (simp add: demo_server_def demo_req_def NewA2A_def)
  have h3: "tasks (demo_server (1 / 1000)) demo_uuid = None"
    by (simp add: demo_server_def NewA2A_def)
  show ?thesis
    using h1 handleCreateTask_denied_creates_nothing [OF h1 h2 h3, of 100] by blast
qed

text \<open>
  C3, as the specification states it, would have the store reject the change of a
  completed task back to pending. The store accepts it: after the run above the task is
  completed; changing it to pending and calling \<open>Update\<close> returns no error, and the
  stored record is pending again.
\<close>

theorem Update_accepts_change_of_completed_task:
  "State (heap demo_done 0) = TaskStateCompleted
   \<and> Get demo_done demo_uuid = Inr 0
   \<and> fst (submitState demo_done 0 TaskStatePending 300) = None
   \<and> State (heap (snd (submitState demo_done 0 TaskStatePending 300)) 0) = TaskStatePending
   \<and> heap (snd (submitState demo_done 0 TaskStatePending 300)) 0 \<noteq> heap demo_done 0"
  by (simp add: demo_done_heap demo_done_tasks Get_def submitState_def Update_def
      UpdateState_def)

text \<open>
  C3, amended: the store's \<open>Update\<close> looks at the id only. For a stored task every
  submitted state is accepted and becomes the stored state, whatever the state before;
  an update whose id is not stored is rejected and changes nothing. The check against
  leaving a terminal state is in the cancel handler: on a terminal task it answers 409
  and changes nothing, on any other stored task it cancels (pending or running to
  cancelled) and answers 200.
\<close>

theorem Update_checks_only_the_id:
  assumes "tasks s taskID = Some p" and "Task_ID (heap s p) = taskID"
  shows "fst (submitState s p st now) = None
       \<and> State (heap (snd (submitState s p st now)) p) = st
       \<and> (tasks s (Task_ID (heap s q)) = None \<longrightarrow>
            Update s q = (Some (''task '' @ Task_ID (heap s q) @ '' not found''), s))
       \<and> (if IsTerminal (State (heap s p))
          then handleCancelTask s taskID now
                 = (httpError ''Task already in terminal state'' StatusConflict, s)
          else Status (fst (handleCancelTask s taskID now)) = 200
             \<and> heap (snd (handleCancelTask s taskID now)) p
                 = Cancel ''Cancelled by user'' now (heap s p)
             \<and> tasks (snd (handleCancelTask s taskID now)) = tasks s)"
  using assms
  by (auto simp: submitState_def Update_def UpdateState_def handleCancelTask_def Get_def
      Cancel_def PublishEvent_def jsonReply_def http_status_defs Let_def fun_upd_idem)

text \<open>
  The created task of the run above is pending: the store takes the change to completed
  (a transition the state machine does not have), an unused heap cell with an unknown id
  is rejected, and DELETE cancels the pending task.
\<close>

theorem Update_checks_only_the_id_witness:
  "tasks demo_created demo_uuid = Some 0
   \<and> Task_ID (heap demo_created 0) = demo_uuid
   \<and> tasks demo_created (Task_ID (heap demo_created 5)) = None
   \<and> \<not> IsTerminal (State (heap demo_created 0))
   \<and> fst (submitState demo_created 0 TaskStateCompleted 120) = None
   \<and> State (heap (snd (submitState demo_created 0 TaskStateCompleted 120)) 0)
       = TaskStateCompleted
   \<and> Update demo_created 5 = (Some ''task  not found'', demo_created)
   \<and> Status (fst (handleCancelTask demo_created demo_uuid 120)) = 200
   \<and> State (heap (snd (handleCancelTask demo_created demo_uuid 120)) 0) = TaskStateCancelled"
proof -
  have h1: "tasks demo_created demo_uuid = Some 0"
    by (rule demo_created_tasks)
  have h2: "Task_ID (heap demo_created 0) = demo_uuid"
    by (simp add: demo_created_heap NewTask_def)
  have h3: "tasks demo_created (Task_ID (heap demo_created 5)) = None"
    by (simp add: demo_defs create_defs)
  have h4: "\<not> IsTerminal (State (heap demo_created 0))"
    by (simp add: demo_created_heap NewTask_def IsTerminal_def)
  have h5: "Task_ID (heap demo_created 5) = []"
    by (simp add: demo_defs create_defs)
  from Update_checks_only_the_id [OF h1 h2, of TaskStateCompleted 120 5] h3 h4 h5
  have "fst (submitState demo_created 0 TaskStateCompleted 120) = None"
    and "State (heap (snd (submitState demo_created 0 TaskStateCompleted 120)) 0)
           = TaskStateCompleted"
    and "Update demo_created 5 = (Some ''task  not found'', demo_created)"
    and "Status (fst (handleCancelTask demo_created demo_uuid 120)) = 200"
    and "heap (snd (handleCancelTask demo_created demo_uuid 120)) 0
           = Cancel ''Cancelled by user'' 120 (heap demo_created 0)"
    by simp_all
  then show ?thesis
    using h1 h2 h3 h4 by (simp add: Cancel_def)
qed




subsection \<open>Rate limiter\<close>








subsection \<open>Tenant identity from token to SQL\<close>

text \<open>
  C10: a token that passes the library's checks, has the expected issuer and audience
  and is not expired is accepted by \<open>ValidateToken\<close> as soon as its tenant id is not
  empty; nothing looks at the form of the tenant id. The accepted tenant id is what the
  request context hands to the storage code, and \<open>SetTenantContext\<close> sends the database
  the statement made of the fixed text, a quote, the tenant id as it is, and a quote:
  no parameter is bound and no character of the tenant id is escaped.
\<close>

theorem tenant_id_reaches_sql_unescaped:
  assumes "decodeToken lib (TrimPrefix header ''Bearer '') = Some (SigningMethodRSA, claims)"
      and "verifies lib (publicKey v) (TrimPrefix header ''Bearer '')"
      and "registeredClaimsValid lib claims now"
      and "Issuer claims = issuer v" and "audience v \<in> set (Audience claims)"
      and "case ExpiresAt claims of Some e \<Rightarrow> now \<le> e | None \<Rightarrow> True"
      and "TenantID claims \<noteq> []"
  shows "ValidateToken v lib header now = Inr claims
       \<and> ExtractTenantID (WithAuth ctx claims) = Inr (TenantID claims)
       \<and> SetTenantContext db tx (TenantID claims) =
           (case set_local db (''SET LOCAL app.current_tenant_id = '' @ [CHR 0x27]
                                 @ TenantID claims @ [CHR 0x27]) of
              Inl err \<Rightarrow> Inl (''failed to set tenant context: '' @ err)
            | Inr val \<Rightarrow>
                Inr (tx\<lparr>executed := executed tx @
                           [''SET LOCAL app.current_tenant_id = '' @ [CHR 0x27]
                              @ TenantID claims @ [CHR 0x27]],
                         current_tenant_id := Some val\<rparr>))"
proof -
  have "ValidateToken v lib header now = Inr claims"
    using assms by (auto simp: ValidateToken_def ParseWithClaims_def split: option.splits)
  moreover have "ExtractTenantID (WithAuth ctx claims) = Inr (TenantID claims)"
    using assms(7) by (simp add: ExtractTenantID_def WithAuth_def)
  ultimately show ?thesis
    by (simp add: SetTenantContext_def Let_def split: sum.splits)
qed

text \<open>
  The token whose tenant id is \<^verbatim>\<open>x'; DROP TABLE documents; --\<close> is accepted, and the
  statement of its transaction carries the quote of the tenant id in the middle of the
  SQL text.
\<close>

theorem tenant_id_reaches_sql_unescaped_witness:
  "decodeToken demo_lib (TrimPrefix ''Bearer token-quote'' ''Bearer '')
     = Some (SigningMethodRSA, demo_claims quoted_tenant)
   \<and> CHR 0x27 \<in> set (TenantID (demo_claims quoted_tenant))
   \<and> ValidateToken demo_validator demo_lib ''Bearer token-quote'' 1000
       = Inr (demo_claims quoted_tenant)
   \<and> ExtractTenantID (WithAuth Background (demo_claims quoted_tenant)) = Inr quoted_tenant
   \<and> BeginTx echo_pg quoted_tenant =
       Inr \<lparr>executed = [''SET LOCAL app.current_tenant_id = '' @ [CHR 0x27] @ ''x''
                           @ [CHR 0x27] @ ''; DROP TABLE documents; --'' @ [CHR 0x27]],
            current_tenant_id = Some (''SET LOCAL app.current_tenant_id = '' @ [CHR 0x27] @ ''x''
                           @ [CHR 0x27] @ ''; DROP TABLE documents; --'' @ [CHR 0x27])\<rparr>"
proof -
  have h1: "decodeToken demo_lib (TrimPrefix ''Bearer token-quote'' ''Bearer '')
              = Some (SigningMethodRSA, demo_claims quoted_tenant)"
    by (simp add: demo_lib_def TrimPrefix_def)
  have h2: "verifies demo_lib (publicKey demo_validator)
              (TrimPrefix ''Bearer token-quote'' ''Bearer '')"
    by (simp add: demo_lib_def demo_validator_def)
  have h3: "registeredClaimsValid demo_lib (demo_claims quoted_tenant) 1000"
    by (simp add: demo_lib_def demo_claims_def)
  have h4: "Issuer (demo_claims quoted_tenant) = issuer demo_validator"
    by (simp add: demo_claims_def demo_validator_def)
  have h5: "audience demo_validator \<in> set (Audience (demo_claims quoted_tenant))"
    by (simp add: demo_claims_def demo_validator_def)
  have h6: "case ExpiresAt (demo_claims quoted_tenant) of Some e \<Rightarrow> 1000 \<le> e | None \<Rightarrow> True"
    by (simp add: demo_claims_def)
  have h7: "TenantID (demo_claims quoted_tenant) \<noteq> []"
    by (simp add: demo_claims_def quoted_tenant_def)
  have q: "CHR 0x27 \<in> set (TenantID (demo_claims quoted_tenant))"
    by (simp add: demo_claims_def quoted_tenant_def)
  have t: "TenantID (demo_claims quoted_tenant) = quoted_tenant"
    by (simp add: demo_claims_def)
  note inst = tenant_id_reaches_sql_unescaped [OF h1 h2 h3 h4 h5 h6 h7,
      of Background echo_pg "\<lparr>executed = [], current_tenant_id = None\<rparr>"]
  from inst have a: "ValidateToken demo_validator demo_lib ''Bearer token-quote'' 1000
       = Inr (demo_claims quoted_tenant)"
    by blast
  from inst have b: "ExtractTenantID (WithAuth Background (demo_claims quoted_tenant))
       = Inr quoted_tenant"
    unfolding t by blast
  from inst
  have "SetTenantContext echo_pg \<lparr>executed = [], current_tenant_id = None\<rparr> quoted_tenant
       = (case set_local echo_pg (''SET LOCAL app.current_tenant_id = '' @ [CHR 0x27]
                                 @ quoted_tenant @ [CHR 0x27]) of
              Inl err \<Rightarrow> Inl (''failed to set tenant context: '' @ err)
            | Inr val \<Rightarrow>
                Inr (\<lparr>executed = [], current_tenant_id = None\<rparr>
                       \<lparr>executed := executed \<lparr>executed = [], current_tenant_id = None\<rparr> @
                           [''SET LOCAL app.current_tenant_id = '' @ [CHR 0x27]
                              @ quoted_tenant @ [CHR 0x27]],
                         current_tenant_id := Some val\<rparr>))"
    unfolding t by blast
  then have c: "BeginTx echo_pg quoted_tenant =
       Inr \<lparr>executed = [''SET LOCAL app.current_tenant_id = '' @ [CHR 0x27] @ ''x''
                           @ [CHR 0x27] @ ''; DROP TABLE documents; --'' @ [CHR 0x27]],
            current_tenant_id = Some (''SET LOCAL app.current_tenant_id = '' @ [CHR 0x27] @ ''x''
                           @ [CHR 0x27] @ ''; DROP TABLE documents; --'' @ [CHR 0x27])\<rparr>"
    by (simp add: BeginTx_def echo_pg_def quoted_tenant_def)
  from a b c show ?thesis using h1 q by blast
qed

subsection \<open>The route \<^verbatim>\<open>/mcp\<close>\<close>











text \<open>
  The two middlewares write their status themselves; for the codes they are called with
  it is the status of the table.
\<close>

lemma middleware_status_follows_table:
  "Status (AuthMiddleware_sendError rid AuthenticationRequired msg :: ('r Response) HTTPReply)
     = spec_http_status AuthenticationRequired"
  "Status (RateLimiter_sendError rl rid RateLimitExceeded msg :: ('r Response) HTTPReply)
     = spec_http_status RateLimitExceeded"
  by (simp_all add: AuthMiddleware_sendError_def RateLimiter_sendError_def spec_http_status_def
      error_code_defs http_status_defs)















subsection \<open>Hybrid search\<close>



















end
